theory Spec2Isabelle
  imports Main
begin

section \<open>The declared object (apis/postgresql/v1alpha1/default\_privleages\_types.go)\<close>

text \<open>
  A Go pointer field (\<^verbatim>\<open>*string\<close>) is an \<open>option\<close>: \<open>None\<close> is the nil pointer.
  \<^verbatim>\<open>Privileges\<close> is a slice; \<open>None\<close> is the nil slice, \<open>Some []\<close> an empty one.
  The reference and selector fields of \<^verbatim>\<open>DefaultPrivilegeParameters\<close> are never read by
  the controller and are left out.
\<close>

record DefaultPrivilegeParameters =
  Privileges :: "string list option"
  Role :: "string option"
  Owner :: "string option"
  Schema :: "string option"
  Database :: "string option"

text \<open>
  The status of the object is the list of conditions of crossplane-runtime's
  \<^verbatim>\<open>ConditionedStatus\<close>. The three conditions the controller sets all have type
  \<^verbatim>\<open>Ready\<close>; the transition time of a condition is left out.
\<close>

datatype ConditionType = TypeReady | TypeSynced

datatype ConditionReason = ReasonAvailable | ReasonCreating | ReasonDeleting | ReasonOther string

record Condition =
  Type :: ConditionType
  Status :: bool
  Reason :: ConditionReason

definition Available :: Condition where
  "Available = \<lparr>Type = TypeReady, Status = True, Reason = ReasonAvailable\<rparr>"

definition Creating :: Condition where
  "Creating = \<lparr>Type = TypeReady, Status = False, Reason = ReasonCreating\<rparr>"

definition Deleting :: Condition where
  "Deleting = \<lparr>Type = TypeReady, Status = False, Reason = ReasonDeleting\<rparr>"

record DefaultPrivilege =
  ForProvider :: DefaultPrivilegeParameters
  Conditions :: "Condition list"

text \<open>
  \<^verbatim>\<open>SetConditions\<close> of crossplane-runtime (an imported library): a condition replaces
  every recorded condition of its own type, and is appended when there is none.
\<close>

fun replace_cond :: "Condition \<Rightarrow> Condition list \<Rightarrow> Condition list \<times> bool" where
  "replace_cond new [] = ([], False)"
| "replace_cond new (existing # rest) =
     (let (rest', found) = replace_cond new rest
      in if Type existing \<noteq> Type new then (existing # rest', found)
         else (new # rest', True))"

definition set_condition :: "Condition list \<Rightarrow> Condition \<Rightarrow> Condition list" where
  "set_condition cs new =
     (let (cs', found) = replace_cond new cs
      in if found then cs' else cs' @ [new])"

definition SetConditions :: "DefaultPrivilege \<Rightarrow> Condition list \<Rightarrow> DefaultPrivilege" where
  "SetConditions cr c = cr\<lparr>Conditions := foldl set_condition (Conditions cr) c\<rparr>"

text \<open>
  \<^verbatim>\<open>resource.Managed\<close> is an interface: the value a verb receives is either a
  \<^verbatim>\<open>*v1alpha1.DefaultPrivilege\<close> or something else (the tests pass nil), for which the
  type assertion \<^verbatim>\<open>mg.(*v1alpha1.DefaultPrivilege)\<close> fails.
\<close>

datatype Managed = DefaultPrivilegeObj DefaultPrivilege | OtherManaged

definition Managed_Conditions :: "Managed \<Rightarrow> Condition list" where
  "Managed_Conditions mg =
     (case mg of DefaultPrivilegeObj cr \<Rightarrow> Conditions cr | OtherManaged \<Rightarrow> [])"

section \<open>Errors, queries and database handles\<close>

text \<open>
  Go errors as values: \<^verbatim>\<open>errors.New\<close>, \<^verbatim>\<open>errors.Wrap\<close> and
  \<^verbatim>\<open>fmt.Errorf("...: %w", err)\<close> (the text before the colon, then the wrapped error).
  An \<^verbatim>\<open>error\<close> result is an \<open>error option\<close>, \<open>None\<close> being nil.
\<close>

datatype error = New string | Wrapped error string | Errorf string error

fun Wrap :: "error option \<Rightarrow> string \<Rightarrow> error option" where
  "Wrap None message = None"
| "Wrap (Some err) message = Some (Wrapped err message)"

definition errNot :: string where
  "errNot = ''managed resource is not a  custom resource''"
definition errSelectDefaultPerms :: string where
  "errSelectDefaultPerms = ''cannot select default permissions ''"
definition errCreateDefaultPermsQuery :: string where
  "errCreateDefaultPermsQuery = ''cannot create default permissions query''"
definition errSelectRoleId :: string where
  "errSelectRoleId = ''cannot select role id ''"
definition errCreateDefaultPerms :: string where
  "errCreateDefaultPerms = ''cannot create default permissions ''"
definition errRevokeDefaultPerms :: string where
  "errRevokeDefaultPerms = ''cannot revoke default permissions ''"
definition errRevokeDefaultPermsQuery :: string where
  "errRevokeDefaultPermsQuery = ''cannot create revoke default permissions query''"
definition errNoRole :: string where
  "errNoRole = ''role not passed or could not be resolved''"
definition errNoOwner :: string where
  "errNoOwner = ''owner not passed or could not be resolved''"
definition errNoSchema :: string where
  "errNoSchema = ''schema not passed or could not be resolved''"
definition errNoPrivileges :: string where
  "errNoPrivileges = ''privileges not passed''"
definition errUnknown :: string where
  "errUnknown = ''cannot identify  type based on passed params''"

text \<open>
  A call either returns or panics (here always a nil pointer dereference).
\<close>

datatype 'a outcome = Return 'a | Panic

text \<open>
  \<^verbatim>\<open>context.Context\<close>: the fresh \<^verbatim>\<open>context.Background()\<close>, or a context handed in
  by the caller of a verb.
\<close>

datatype Context = Background | CallerCtx nat

datatype param = PString string | PInt int

record Query =
  String :: string
  Parameters :: "param list"

text \<open>
  \<^verbatim>\<open>xsql.DB\<close> is an interface of the execution collaborator. A handle is modelled by its
  responses, as \<^verbatim>\<open>mockDB\<close> of the tests does: \<^verbatim>\<open>Scan\<close> into an \<^verbatim>\<open>*int\<close> and
  into a \<^verbatim>\<open>*bool\<close> take the value the destination holds and return the error and the
  value it holds afterwards; \<^verbatim>\<open>ExecTx\<close> returns the error.
\<close>

record DB =
  ScanInt :: "Context \<Rightarrow> Query \<Rightarrow> int \<Rightarrow> error option \<times> int"
  ScanBool :: "Context \<Rightarrow> Query \<Rightarrow> bool \<Rightarrow> error option \<times> bool"
  ExecTx :: "Context \<Rightarrow> Query list \<Rightarrow> error option"

record external =
  db :: DB
  dbDatabase :: DB

text \<open>Every call made on a handle is recorded, with the handle and the context it was given.\<close>

datatype handle = Handle_db | Handle_dbDatabase

datatype call =
    is_Scan: ScanCall handle Context Query
  | is_ExecTx: ExecTxCall handle Context "Query list"

fun call_ctx :: "call \<Rightarrow> Context" where
  "call_ctx (ScanCall h ctx q) = ctx"
| "call_ctx (ExecTxCall h ctx ql) = ctx"

section \<open>Identity resolver and existence probes (reconciler.go)\<close>

definition GetRoleOID :: "external \<Rightarrow> string \<Rightarrow> (int \<times> error option) \<times> call list" where
  "GetRoleOID c roleName =
     (let q = \<lparr>String = ''SELECT oid FROM pg_roles WHERE rolname = $1;'' @ [CHR 0x0A],
                Parameters = [PString roleName]\<rparr>;
          oid = 0
      in case ScanInt (db c) Background q oid of
           (Some err, _) \<Rightarrow>
             ((0, Some (Errorf (''could not find oid for role '' @ roleName) err)),
              [ScanCall Handle_db Background q])
         | (None, oid') \<Rightarrow> ((oid', None), [ScanCall Handle_db Background q]))"

text \<open>
  \<^verbatim>\<open>DataBaseExits\<close> takes the caller's context and the destination \<^verbatim>\<open>exists\<close>; it
  returns the error, the value of the destination afterwards, and the call it made.
\<close>

definition DataBaseExits ::
  "external \<Rightarrow> Context \<Rightarrow> string \<Rightarrow> bool \<Rightarrow> (error option \<times> bool) \<times> call list" where
  "DataBaseExits c ctx dbNAme exists =
     (let q = \<lparr>String = ''SELECT EXISTS (SELECT datname FROM pg_catalog.pg_database WHERE datname = $1);''
                         @ [CHR 0x0A],
                Parameters = [PString dbNAme]\<rparr>
      in case ScanBool (db c) Background q exists of
           (Some err, exists') \<Rightarrow>
             ((Some (Errorf (''could not find database '' @ dbNAme) err), exists'),
              [ScanCall Handle_db Background q])
         | (None, exists') \<Rightarrow> ((None, exists'), [ScanCall Handle_db Background q]))"

definition selectQuery_String :: string where
  "selectQuery_String =
     [CHR 0x0A]
     @ [CHR 0x09] @ ''SELECT EXISTS ('' @ [CHR 0x0A]
     @ [CHR 0x09] @ ''SELECT 1 FROM ('' @ [CHR 0x0A]
     @ [CHR 0x09, CHR 0x09]
       @ ''SELECT defaclnamespace, (aclexplode(defaclacl)).* FROM pg_default_acl'' @ [CHR 0x0A]
     @ '' '' @ [CHR 0x09, CHR 0x09] @ ''WHERE defaclobjtype = '' @ [CHR 0x27] @ ''r'' @ [CHR 0x27, CHR 0x0A]
     @ [CHR 0x09] @ '') AS t (namespace, grantor_oid, grantee_oid, prtype, grantable)''
       @ [CHR 0x0A]
     @ [CHR 0x09] @ ''JOIN pg_namespace ON pg_namespace.oid = namespace'' @ [CHR 0x0A]
     @ [CHR 0x09]
       @ ''WHERE grantee_oid = $1 AND nspname = 'public' AND grantor_oid = $2'' @ [CHR 0x0A]
     @ ''   '' @ [CHR 0x09] @ '');'' @ [CHR 0x0A]
     @ [CHR 0x09]"

definition selectQuery :: "Query \<Rightarrow> int \<Rightarrow> int \<Rightarrow> Query \<times> error option" where
  "selectQuery q ownerID roleID =
     (q\<lparr>String := selectQuery_String, Parameters := [PInt roleID, PInt ownerID]\<rparr>, None)"

section \<open>Statement builder (reconciler.go)\<close>

text \<open>
  Modelled from the spec: identifiers are quoted as SQL identifiers before interpolation.
  \<^verbatim>\<open>pq.QuoteIdentifier\<close> belongs to the imported driver library and is not under src/;
  it cuts the name at the first NUL byte, doubles every double quote (\<open>CHR 0x22\<close>) and
  puts the result between double quotes.
\<close>

definition QuoteIdentifier :: "string \<Rightarrow> string" where
  "QuoteIdentifier name =
     [CHR 0x22]
     @ concat (map (\<lambda>ch. if ch = CHR 0x22 then [CHR 0x22, CHR 0x22] else [ch])
                   (takeWhile (\<lambda>ch. ch \<noteq> CHR 0x00) name))
     @ [CHR 0x22]"

text \<open>\<^verbatim>\<open>strings.Join\<close>.\<close>

fun Join :: "string list \<Rightarrow> string \<Rightarrow> string" where
  "Join [] sep = []"
| "Join [x] sep = x"
| "Join (x # y # ys) sep = x @ sep @ Join (y # ys) sep"

text \<open>
  \<^verbatim>\<open>ToStringSlice\<close> is called on the address of the field, which is never nil; a nil
  slice has length 0.
\<close>

definition ToStringSlice :: "string list option \<Rightarrow> string list" where
  "ToStringSlice gp = (case gp of None \<Rightarrow> [] | Some ps \<Rightarrow> map (\<lambda>v. v) ps)"

definition stmt :: "string \<Rightarrow> Query" where
  "stmt s = \<lparr>String = s, Parameters = []\<rparr>"

definition createQueries ::
  "DefaultPrivilegeParameters \<Rightarrow> Query list \<Rightarrow> Query list \<times> error option" where
  "createQueries gp ql =
     (case Role gp of
        None \<Rightarrow> (ql, Some (New errNoRole))
      | Some role \<Rightarrow>
     (case Schema gp of
        None \<Rightarrow> (ql, Some (New errNoSchema))
      | Some sch \<Rightarrow>
     (if Privileges gp = None then (ql, Some (New errNoPrivileges))
      else
     (case Owner gp of
        None \<Rightarrow> (ql, Some (New errNoOwner))
      | Some owner \<Rightarrow>
        (let ro = QuoteIdentifier role;
             schema = QuoteIdentifier sch;
             p = Join (ToStringSlice (Privileges gp)) '',''
         in if length p = 0 then (ql, Some (New errNoPrivileges))
            else
              (ql @
                 [stmt (''SET ROLE '' @ QuoteIdentifier owner @ '' ''),
                  stmt (''ALTER DEFAULT PRIVILEGES FOR ROLE '' @ QuoteIdentifier owner
                        @ '' IN SCHEMA '' @ QuoteIdentifier sch
                        @ '' REVOKE ALL ON TABLES FROM '' @ ro),
                  stmt (''ALTER DEFAULT PRIVILEGES FOR ROLE '' @ QuoteIdentifier owner
                        @ '' IN SCHEMA '' @ schema
                        @ ''  GRANT  '' @ p @ '' ON TABLES TO '' @ ro)],
               None))))))"

text \<open>
  \<^verbatim>\<open>deleteQuery\<close> checks \<^verbatim>\<open>Role\<close> and \<^verbatim>\<open>Schema\<close> and then dereferences
  \<^verbatim>\<open>gp.Owner\<close> while it builds the first statement.
\<close>

definition deleteQuery ::
  "DefaultPrivilegeParameters \<Rightarrow> Query list \<Rightarrow> (Query list \<times> error option) outcome" where
  "deleteQuery gp ql =
     (case Role gp of
        None \<Rightarrow> Return (ql, Some (New errNoRole))
      | Some role \<Rightarrow>
     (case Schema gp of
        None \<Rightarrow> Return (ql, Some (New errNoSchema))
      | Some sch \<Rightarrow>
        (let ro = QuoteIdentifier role
         in case Owner gp of
              None \<Rightarrow> Panic
            | Some owner \<Rightarrow>
                Return
                  (ql @
                     [stmt (''SET ROLE '' @ QuoteIdentifier owner @ '' ''),
                      stmt (''ALTER DEFAULT PRIVILEGES FOR ROLE '' @ QuoteIdentifier owner
                            @ ''  IN SCHEMA '' @ QuoteIdentifier sch
                            @ '' REVOKE ALL ON TABLES FROM '' @ ro)],
                   None))))"

section \<open>The four verbs (reconciler.go)\<close>

text \<open>
  A verb returns its Go results (or panics), the object it was handed as the call leaves
  it (the verbs mutate it through the pointer), and the calls it made on the two handles,
  in order.
\<close>

record 'a verb_result =
  outcome :: "'a outcome"
  object :: Managed
  calls :: "call list"

record ExternalObservation =
  ResourceExists :: bool
  ResourceUpToDate :: bool
  ResourceLateInitialized :: bool

definition ExternalObservation_zero :: ExternalObservation where
  "ExternalObservation_zero =
     \<lparr>ResourceExists = False, ResourceUpToDate = False, ResourceLateInitialized = False\<rparr>"

datatype ExternalCreation = ExternalCreation_zero

datatype ExternalUpdate = ExternalUpdate_zero

definition Observe ::
  "external \<Rightarrow> Context \<Rightarrow> Managed \<Rightarrow> (ExternalObservation \<times> error option) verb_result" where
  "Observe c ctx mg =
     (case mg of
        OtherManaged \<Rightarrow>
          \<lparr>outcome = Return (ExternalObservation_zero, Some (New errNot)),
           object = mg, calls = []\<rparr>
      | DefaultPrivilegeObj cr \<Rightarrow>
     (case Role (ForProvider cr) of
        None \<Rightarrow>
          \<lparr>outcome = Return (ExternalObservation_zero, Some (New errNoRole)),
           object = mg, calls = []\<rparr>
      | Some role \<Rightarrow>
     (let gp = ForProvider cr;
          exists = False
      in case GetRoleOID c role of
        ((roleId, Some err), log1) \<Rightarrow>
          \<lparr>outcome = Return (ExternalObservation_zero, Wrap (Some err) errSelectRoleId),
           object = mg, calls = log1\<rparr>
      | ((roleId, None), log1) \<Rightarrow>
     (case Owner gp of
        None \<Rightarrow> \<lparr>outcome = Panic, object = mg, calls = log1\<rparr>
      | Some owner \<Rightarrow>
     (case GetRoleOID c owner of
        ((ownerId, Some err), log2) \<Rightarrow>
          \<lparr>outcome = Return (ExternalObservation_zero, Wrap (Some err) errSelectRoleId),
           object = mg, calls = log1 @ log2\<rparr>
      | ((ownerId, None), log2) \<Rightarrow>
     (case selectQuery \<lparr>String = [], Parameters = []\<rparr> ownerId roleId of
        (query, Some err) \<Rightarrow>
          \<lparr>outcome = Return (ExternalObservation_zero, Some err),
           object = mg, calls = log1 @ log2\<rparr>
      | (query, None) \<Rightarrow>
     (let log3 = log1 @ log2 @ [ScanCall Handle_dbDatabase ctx query]
      in case ScanBool (dbDatabase c) ctx query exists of
        (Some err, _) \<Rightarrow>
          \<lparr>outcome = Return (ExternalObservation_zero, Wrap (Some err) errSelectDefaultPerms),
           object = mg, calls = log3\<rparr>
      | (None, exists') \<Rightarrow>
          if \<not> exists' then
            \<lparr>outcome = Return (ExternalObservation_zero\<lparr>ResourceExists := False\<rparr>, None),
             object = mg, calls = log3\<rparr>
          else
            \<lparr>outcome = Return (\<lparr>ResourceExists = True, ResourceUpToDate = True,
                                 ResourceLateInitialized = False\<rparr>, None),
             object = DefaultPrivilegeObj (SetConditions cr [Available]),
             calls = log3\<rparr>)))))))"

definition Create ::
  "external \<Rightarrow> Context \<Rightarrow> Managed \<Rightarrow> (ExternalCreation \<times> error option) verb_result" where
  "Create c ctx mg =
     (case mg of
        OtherManaged \<Rightarrow>
          \<lparr>outcome = Return (ExternalCreation_zero, Some (New errNot)),
           object = mg, calls = []\<rparr>
      | DefaultPrivilegeObj cr0 \<Rightarrow>
     (let cr = SetConditions cr0 [Creating]
      in case createQueries (ForProvider cr) [] of
        (queries, Some err) \<Rightarrow>
          \<lparr>outcome = Return (ExternalCreation_zero, Wrap (Some err) errCreateDefaultPermsQuery),
           object = DefaultPrivilegeObj cr, calls = []\<rparr>
      | (queries, None) \<Rightarrow>
     (let err = ExecTx (dbDatabase c) ctx queries;
          log = [ExecTxCall Handle_dbDatabase ctx queries]
      in if err \<noteq> None then
           \<lparr>outcome = Return (ExternalCreation_zero, Wrap err errCreateDefaultPerms),
            object = DefaultPrivilegeObj cr, calls = log\<rparr>
         else
           \<lparr>outcome = Return (ExternalCreation_zero, Wrap err errUnknown),
            object = DefaultPrivilegeObj cr, calls = log\<rparr>)))"

definition Update ::
  "external \<Rightarrow> Context \<Rightarrow> Managed \<Rightarrow> (ExternalUpdate \<times> error option) verb_result" where
  "Update c ctx mg = \<lparr>outcome = Return (ExternalUpdate_zero, None), object = mg, calls = []\<rparr>"

definition Delete :: "external \<Rightarrow> Context \<Rightarrow> Managed \<Rightarrow> (error option) verb_result" where
  "Delete c ctx mg =
     (case mg of
        OtherManaged \<Rightarrow> \<lparr>outcome = Return (Some (New errNot)), object = mg, calls = []\<rparr>
      | DefaultPrivilegeObj cr0 \<Rightarrow>
     (let cr = SetConditions cr0 [Deleting];
          dbExists = False
      in case Database (ForProvider cr) of
        None \<Rightarrow> \<lparr>outcome = Panic, object = DefaultPrivilegeObj cr, calls = []\<rparr>
      | Some database \<Rightarrow>
     (case DataBaseExits c ctx database dbExists of
        ((Some err, dbExists'), log1) \<Rightarrow>
          \<lparr>outcome = Return (Wrap (Some err) errRevokeDefaultPerms),
           object = DefaultPrivilegeObj cr, calls = log1\<rparr>
      | ((None, dbExists'), log1) \<Rightarrow>
          if \<not> dbExists' then
            \<lparr>outcome = Return None, object = DefaultPrivilegeObj cr, calls = log1\<rparr>
          else
     (case deleteQuery (ForProvider cr) [] of
        Panic \<Rightarrow> \<lparr>outcome = Panic, object = DefaultPrivilegeObj cr, calls = log1\<rparr>
      | Return (queries, Some err) \<Rightarrow>
          \<lparr>outcome = Return (Wrap (Some err) errRevokeDefaultPermsQuery),
           object = DefaultPrivilegeObj cr, calls = log1\<rparr>
      | Return (queries, None) \<Rightarrow>
     (let err = ExecTx (dbDatabase c) ctx queries;
          log2 = log1 @ [ExecTxCall Handle_dbDatabase ctx queries]
      in if err \<noteq> None then
           \<lparr>outcome = Return (Wrap err errRevokeDefaultPerms),
            object = DefaultPrivilegeObj cr, calls = log2\<rparr>
         else
           \<lparr>outcome = Return None, object = DefaultPrivilegeObj cr, calls = log2\<rparr>)))))"

text \<open>
  The handle selection of \<^verbatim>\<open>Connect\<close>: the database the second handle is bound to.
\<close>

definition crateDb :: "string \<Rightarrow> DefaultPrivilegeParameters \<Rightarrow> string" where
  "crateDb DefaultDatabase gp =
     (case Database gp of None \<Rightarrow> DefaultDatabase | Some database \<Rightarrow> database)"

section \<open>The scenario object and stub handles\<close>

text \<open>
  The object of the spec's scenario, \<^verbatim>\<open>{role: "r", owner: "o", schema: "s", database: "d",
  privileges: ["ALL"]}\<close>, and handles in the manner of the tests' \<^verbatim>\<open>mockDB\<close>: a scan
  into an integer leaves the destination as it is, a scan into a boolean stores \<open>found\<close>,
  and \<^verbatim>\<open>ExecTx\<close> returns \<open>execErr\<close>.
\<close>

definition scenario_params :: DefaultPrivilegeParameters where
  "scenario_params =
     \<lparr>Privileges = Some [''ALL''], Role = Some ''r'', Owner = Some ''o'',
      Schema = Some ''s'', Database = Some ''d''\<rparr>"

definition scenario_object :: DefaultPrivilege where
  "scenario_object = \<lparr>ForProvider = scenario_params, Conditions = []\<rparr>"

definition mockDB :: "bool \<Rightarrow> error option \<Rightarrow> DB" where
  "mockDB found execErr =
     \<lparr>ScanInt = (\<lambda>ctx q dest. (None, dest)),
      ScanBool = (\<lambda>ctx q dest. (None, found)),
      ExecTx = (\<lambda>ctx ql. execErr)\<rparr>"

definition mock_external :: "bool \<Rightarrow> external" where
  "mock_external found = \<lparr>db = mockDB found None, dbDatabase = mockDB found None\<rparr>"

section \<open>Status conditions\<close>

lemma ForProvider_SetConditions [simp]: "ForProvider (SetConditions cr c) = ForProvider cr"
  by (simp add: SetConditions_def)

lemma replace_cond_fst:
  "fst (replace_cond new cs) = map (\<lambda>e. if Type e \<noteq> Type new then e else new) cs"
  by (induction cs) (auto simp: Let_def split: prod.splits)

lemma replace_cond_snd:
  "snd (replace_cond new cs) = (\<exists>e \<in> set cs. Type e = Type new)"
  by (induction cs) (auto simp: Let_def split: prod.splits)

lemma set_condition_eq:
  "set_condition cs new =
     (if \<exists>e \<in> set cs. Type e = Type new
      then map (\<lambda>e. if Type e \<noteq> Type new then e else new) cs
      else cs @ [new])"
proof -
  have "replace_cond new cs = (fst (replace_cond new cs), snd (replace_cond new cs))"
    by simp
  then show ?thesis
    unfolding set_condition_def replace_cond_fst replace_cond_snd
    by (auto simp: Let_def map_idI split: prod.splits)
qed

lemma set_condition_member: "new \<in> set (set_condition cs new)"
  by (auto simp: set_condition_eq)

lemma set_condition_same_type:
  "x \<in> set (set_condition cs new) \<Longrightarrow> Type x = Type new \<Longrightarrow> x = new"
  by (auto simp: set_condition_eq split: if_splits)

lemma SetConditions_single:
  "Conditions (SetConditions cr [new]) = set_condition (Conditions cr) new"
  by (simp add: SetConditions_def)

text \<open>After \<^verbatim>\<open>SetConditions(xpv1.Available())\<close> no other \<^verbatim>\<open>Ready\<close> condition is left.\<close>

lemma SetConditions_Available_only:
  "[x \<leftarrow> Conditions (SetConditions cr [Available]). Type x = TypeReady \<and> x \<noteq> Available] = []"
proof -
  have "\<And>x. x \<in> set (set_condition (Conditions cr) Available) \<Longrightarrow>
             Type x = TypeReady \<Longrightarrow> x = Available"
    using set_condition_same_type [of _ "Conditions cr" Available]
    by (simp add: Available_def)
  then show ?thesis
    by (auto simp: SetConditions_single filter_empty_conv)
qed

section \<open>The install sequence of the scenario\<close>

text \<open>
  For an object with role, schema, owner and privileges whose joined text is not empty,
  the builder appends three statements: the session-role assumption, the revoke-all and
  the grant, in this order.
\<close>

lemma createQueries_valid:
  assumes "Role gp = Some role" and "Schema gp = Some sch" and "Privileges gp = Some ps"
    and "Owner gp = Some owner" and "Join ps '','' \<noteq> []"
  shows "createQueries gp ql =
     (ql @
        [stmt (''SET ROLE '' @ QuoteIdentifier owner @ '' ''),
         stmt (''ALTER DEFAULT PRIVILEGES FOR ROLE '' @ QuoteIdentifier owner
               @ '' IN SCHEMA '' @ QuoteIdentifier sch
               @ '' REVOKE ALL ON TABLES FROM '' @ QuoteIdentifier role),
         stmt (''ALTER DEFAULT PRIVILEGES FOR ROLE '' @ QuoteIdentifier owner
               @ '' IN SCHEMA '' @ QuoteIdentifier sch
               @ ''  GRANT  '' @ Join ps '','' @ '' ON TABLES TO '' @ QuoteIdentifier role)],
      None)"
  using assms by (simp add: createQueries_def ToStringSlice_def Let_def)

text \<open>
  However identifiers are quoted, a successful build from the empty list has three
  statements and the first one ends in a space.
\<close>

lemma createQueries_first_statement:
  assumes "createQueries gp [] = (qs, None)"
  shows "length qs = 3 \<and> last (String (hd qs)) = CHR '' ''"
  using assms
  by (auto simp: createQueries_def Let_def stmt_def split: option.splits if_splits)

lemma QuoteIdentifier_plain:
  "QuoteIdentifier ''r'' = [CHR 0x22] @ ''r'' @ [CHR 0x22]"
  "QuoteIdentifier ''o'' = [CHR 0x22] @ ''o'' @ [CHR 0x22]"
  "QuoteIdentifier ''s'' = [CHR 0x22] @ ''s'' @ [CHR 0x22]"
  by (simp_all add: QuoteIdentifier_def)

lemma createQueries_scenario:
  "createQueries scenario_params [] =
     ([stmt (''SET ROLE '' @ [CHR 0x22] @ ''o'' @ [CHR 0x22] @ '' ''),
       stmt (''ALTER DEFAULT PRIVILEGES FOR ROLE '' @ [CHR 0x22] @ ''o'' @ [CHR 0x22]
             @ '' IN SCHEMA '' @ [CHR 0x22] @ ''s'' @ [CHR 0x22]
             @ '' REVOKE ALL ON TABLES FROM '' @ [CHR 0x22] @ ''r'' @ [CHR 0x22]),
       stmt (''ALTER DEFAULT PRIVILEGES FOR ROLE '' @ [CHR 0x22] @ ''o'' @ [CHR 0x22]
             @ '' IN SCHEMA '' @ [CHR 0x22] @ ''s'' @ [CHR 0x22]
             @ ''  GRANT  ALL ON TABLES TO '' @ [CHR 0x22] @ ''r'' @ [CHR 0x22])],
      None)"
  by (simp add: createQueries_def scenario_params_def QuoteIdentifier_plain ToStringSlice_def
        Let_def)

text \<open>
  C1 (as stated): Create on the scenario object builds the three statements
  \<^verbatim>\<open>SET ROLE o\<close>, \<^verbatim>\<open>ALTER DEFAULT PRIVILEGES FOR ROLE o IN SCHEMA s REVOKE ALL ON TABLES FROM r\<close>,
  \<^verbatim>\<open>ALTER DEFAULT PRIVILEGES FOR ROLE o IN SCHEMA s GRANT ALL ON TABLES TO r\<close>.
  The statement builder does not produce these texts: every identifier is quoted, the
  first statement ends in a space, and the grant statement has doubled spaces.
\<close>

theorem C1_unquoted_statements_counterexample:
  "map String (fst (createQueries scenario_params [])) \<noteq>
     [''SET ROLE o'',
      ''ALTER DEFAULT PRIVILEGES FOR ROLE o IN SCHEMA s REVOKE ALL ON TABLES FROM r'',
      ''ALTER DEFAULT PRIVILEGES FOR ROLE o IN SCHEMA s GRANT ALL ON TABLES TO r'']"
  by (simp add: createQueries_scenario stmt_def)

text \<open>
  C1 (amended): for the scenario object, whatever its conditions, the handles and the
  context, the builder returns exactly three statements in this order, with no error:
  the session-role assumption, the revoke-all and the grant, each identifier between
  double quotes (\<open>CHR 0x22\<close>) and with the spacing of the code; and Create makes exactly
  one call on a handle, \<^verbatim>\<open>ExecTx\<close> on \<^verbatim>\<open>dbDatabase\<close> with the context of the verb and
  that whole list.
\<close>

theorem C1_create_scenario_statements:
  "createQueries scenario_params [] =
     ([stmt (''SET ROLE '' @ [CHR 0x22] @ ''o'' @ [CHR 0x22] @ '' ''),
       stmt (''ALTER DEFAULT PRIVILEGES FOR ROLE '' @ [CHR 0x22] @ ''o'' @ [CHR 0x22]
             @ '' IN SCHEMA '' @ [CHR 0x22] @ ''s'' @ [CHR 0x22]
             @ '' REVOKE ALL ON TABLES FROM '' @ [CHR 0x22] @ ''r'' @ [CHR 0x22]),
       stmt (''ALTER DEFAULT PRIVILEGES FOR ROLE '' @ [CHR 0x22] @ ''o'' @ [CHR 0x22]
             @ '' IN SCHEMA '' @ [CHR 0x22] @ ''s'' @ [CHR 0x22]
             @ ''  GRANT  ALL ON TABLES TO '' @ [CHR 0x22] @ ''r'' @ [CHR 0x22])],
      None)
   \<and> calls (Create c ctx
              (DefaultPrivilegeObj \<lparr>ForProvider = scenario_params, Conditions = cs\<rparr>)) =
       [ExecTxCall Handle_dbDatabase ctx (fst (createQueries scenario_params []))]"
  by (simp add: Create_def createQueries_scenario Let_def)

section \<open>Observe\<close>

text \<open>
  C3: for an object of the right kind whose role and owner are set and whose two
  identities resolve (both \<^verbatim>\<open>GetRoleOID\<close> calls return no error): when the grant-existence
  scan succeeds and stores \<open>found\<close>, Observe returns no error; with \<open>found\<close> false it
  returns exists=false and leaves the object as it was; with \<open>found\<close> true it returns
  exists=true, upToDate=true, lateInitialized=false and the object is the old one after
  \<^verbatim>\<open>SetConditions(xpv1.Available())\<close>, whose only \<^verbatim>\<open>Ready\<close> condition is Available.
\<close>

theorem C3_observe_existence_mapping:
  assumes role: "Role (ForProvider cr) = Some role"
    and owner: "Owner (ForProvider cr) = Some owner"
    and roleId: "fst (GetRoleOID c role) = (roleId, None)"
    and ownerId: "fst (GetRoleOID c owner) = (ownerId, None)"
    and probe: "ScanBool (dbDatabase c) ctx
                  (fst (selectQuery \<lparr>String = [], Parameters = []\<rparr> ownerId roleId)) False
                = (None, found)"
  shows "outcome (Observe c ctx (DefaultPrivilegeObj cr)) =
           Return (\<lparr>ResourceExists = found, ResourceUpToDate = found,
                    ResourceLateInitialized = False\<rparr>, None)
       \<and> object (Observe c ctx (DefaultPrivilegeObj cr)) =
           (if found then DefaultPrivilegeObj (SetConditions cr [Available])
            else DefaultPrivilegeObj cr)
       \<and> Available \<in> set (Conditions (SetConditions cr [Available]))
       \<and> [x \<leftarrow> Conditions (SetConditions cr [Available]).
            Type x = TypeReady \<and> x \<noteq> Available] = []"
proof -
  obtain log1 where r: "GetRoleOID c role = ((roleId, None), log1)"
    using roleId by (cases "GetRoleOID c role") simp
  obtain log2 where ow: "GetRoleOID c owner = ((ownerId, None), log2)"
    using ownerId by (cases "GetRoleOID c owner") simp
  have "outcome (Observe c ctx (DefaultPrivilegeObj cr)) =
           Return (\<lparr>ResourceExists = found, ResourceUpToDate = found,
                    ResourceLateInitialized = False\<rparr>, None)"
    unfolding Observe_def using role owner r ow probe
    by (simp add: Let_def ExternalObservation_zero_def selectQuery_def)
  moreover have "object (Observe c ctx (DefaultPrivilegeObj cr)) =
           (if found then DefaultPrivilegeObj (SetConditions cr [Available])
            else DefaultPrivilegeObj cr)"
    unfolding Observe_def using role owner r ow probe
    by (simp add: Let_def selectQuery_def)
  moreover have "Available \<in> set (Conditions (SetConditions cr [Available]))"
    by (simp add: SetConditions_single set_condition_member)
  ultimately show ?thesis
    using SetConditions_Available_only by blast
qed

lemma GetRoleOID_mock:
  "GetRoleOID (mock_external found) name =
     ((0, None),
      [ScanCall Handle_db Background
         \<lparr>String = ''SELECT oid FROM pg_roles WHERE rolname = $1;'' @ [CHR 0x0A],
          Parameters = [PString name]\<rparr>])"
  by (simp add: GetRoleOID_def mock_external_def mockDB_def)

theorem C3_observe_existence_mapping_witness:
  "outcome (Observe (mock_external True) (CallerCtx 1) (DefaultPrivilegeObj scenario_object)) =
     Return (\<lparr>ResourceExists = True, ResourceUpToDate = True,
              ResourceLateInitialized = False\<rparr>, None)
   \<and> object (Observe (mock_external True) (CallerCtx 1) (DefaultPrivilegeObj scenario_object)) =
       DefaultPrivilegeObj (scenario_object\<lparr>Conditions := [Available]\<rparr>)
   \<and> outcome (Observe (mock_external False) (CallerCtx 1) (DefaultPrivilegeObj scenario_object)) =
       Return (\<lparr>ResourceExists = False, ResourceUpToDate = False,
                ResourceLateInitialized = False\<rparr>, None)
   \<and> object (Observe (mock_external False) (CallerCtx 1) (DefaultPrivilegeObj scenario_object)) =
       DefaultPrivilegeObj scenario_object"
proof -
  have role: "Role (ForProvider scenario_object) = Some ''r''"
    and owner: "Owner (ForProvider scenario_object) = Some ''o''"
    by (simp_all add: scenario_object_def scenario_params_def)
  have ids: "fst (GetRoleOID (mock_external found) name) = (0, None)" for found name
    by (simp add: GetRoleOID_mock)
  have probe: "ScanBool (dbDatabase (mock_external found)) (CallerCtx 1)
                 (fst (selectQuery \<lparr>String = [], Parameters = []\<rparr> 0 0)) False
               = (None, found)" for found
    by (simp add: mock_external_def mockDB_def)
  have avail: "SetConditions scenario_object [Available] =
                 scenario_object\<lparr>Conditions := [Available]\<rparr>"
    by (simp add: SetConditions_def set_condition_def scenario_object_def)
  show ?thesis
    using C3_observe_existence_mapping [OF role owner ids ids probe, of True]
      C3_observe_existence_mapping [OF role owner ids ids probe, of False]
    by (simp add: avail)
qed

section \<open>Delete\<close>

text \<open>
  C4: for an object of the right kind with a database set, when the database-existence
  probe returns no error and leaves \<^verbatim>\<open>dbExists\<close> false, Delete returns nil, the only call
  it made is the probe, and no call is an \<^verbatim>\<open>ExecTx\<close>.
\<close>

theorem C4_delete_short_circuit:
  assumes database: "Database (ForProvider cr) = Some database"
    and probe: "fst (DataBaseExits c ctx database False) = (None, False)"
  shows "outcome (Delete c ctx (DefaultPrivilegeObj cr)) = Return None
       \<and> calls (Delete c ctx (DefaultPrivilegeObj cr)) = snd (DataBaseExits c ctx database False)
       \<and> filter is_ExecTx (calls (Delete c ctx (DefaultPrivilegeObj cr))) = []"
proof -
  obtain log1 where p: "DataBaseExits c ctx database False = ((None, False), log1)"
    using probe by (cases "DataBaseExits c ctx database False") simp
  have scans: "filter is_ExecTx (snd (DataBaseExits c ctx database False)) = []"
    by (simp add: DataBaseExits_def Let_def split: prod.splits option.splits)
  have "outcome (Delete c ctx (DefaultPrivilegeObj cr)) = Return None"
    unfolding Delete_def using database p by (simp add: Let_def)
  moreover have "calls (Delete c ctx (DefaultPrivilegeObj cr)) = log1"
    unfolding Delete_def using database p by (simp add: Let_def)
  ultimately show ?thesis
    using scans p by simp
qed

theorem C4_delete_short_circuit_witness:
  "outcome (Delete (mock_external False) (CallerCtx 1) (DefaultPrivilegeObj scenario_object))
     = Return None
   \<and> filter is_ExecTx
       (calls (Delete (mock_external False) (CallerCtx 1) (DefaultPrivilegeObj scenario_object)))
     = []"
proof -
  have database: "Database (ForProvider scenario_object) = Some ''d''"
    by (simp add: scenario_object_def scenario_params_def)
  have probe: "fst (DataBaseExits (mock_external False) (CallerCtx 1) ''d'' False) = (None, False)"
    by (simp add: DataBaseExits_def mock_external_def mockDB_def)
  show ?thesis
    using C4_delete_short_circuit [OF database probe] by blast
qed

section \<open>Validation in the statement builders\<close>

text \<open>
  \<^verbatim>\<open>createQueries\<close> rejects an object without role, schema, privileges or owner, each with
  its own error, and leaves the statement list as it was; Create then returns that error
  wrapped and calls no handle.
\<close>

lemma createQueries_Role_absent:
  "Role gp = None \<Longrightarrow> createQueries gp ql = (ql, Some (New errNoRole))"
  by (simp add: createQueries_def)

lemma createQueries_Schema_absent:
  "Role gp = Some role \<Longrightarrow> Schema gp = None \<Longrightarrow>
   createQueries gp ql = (ql, Some (New errNoSchema))"
  by (simp add: createQueries_def)

lemma createQueries_Privileges_absent:
  "Role gp = Some role \<Longrightarrow> Schema gp = Some sch \<Longrightarrow> Privileges gp = None \<Longrightarrow>
   createQueries gp ql = (ql, Some (New errNoPrivileges))"
  by (simp add: createQueries_def)

lemma createQueries_Privileges_empty:
  "Role gp = Some role \<Longrightarrow> Schema gp = Some sch \<Longrightarrow> Owner gp = Some owner \<Longrightarrow>
   Privileges gp = Some [] \<Longrightarrow>
   createQueries gp ql = (ql, Some (New errNoPrivileges))"
  by (simp add: createQueries_def ToStringSlice_def Let_def)

lemma createQueries_Owner_absent:
  "Role gp = Some role \<Longrightarrow> Schema gp = Some sch \<Longrightarrow> Privileges gp = Some ps \<Longrightarrow>
   Owner gp = None \<Longrightarrow>
   createQueries gp ql = (ql, Some (New errNoOwner))"
  by (simp add: createQueries_def)

lemma Create_validation_error:
  "createQueries (ForProvider cr) [] = (ql, Some err) \<Longrightarrow>
   outcome (Create c ctx (DefaultPrivilegeObj cr)) =
     Return (ExternalCreation_zero, Some (Wrapped err errCreateDefaultPermsQuery))
   \<and> calls (Create c ctx (DefaultPrivilegeObj cr)) = []"
  by (simp add: Create_def Let_def)

text \<open>
  \<^verbatim>\<open>deleteQuery\<close> rejects an object without role or schema in the same way and never
  looks at the privileges; it has no check of the owner.
\<close>

lemma deleteQuery_Role_absent:
  "Role gp = None \<Longrightarrow> deleteQuery gp ql = Return (ql, Some (New errNoRole))"
  by (simp add: deleteQuery_def)

lemma deleteQuery_Schema_absent:
  "Role gp = Some role \<Longrightarrow> Schema gp = None \<Longrightarrow>
   deleteQuery gp ql = Return (ql, Some (New errNoSchema))"
  by (simp add: deleteQuery_def)

lemma deleteQuery_Owner_absent:
  "Role gp = Some role \<Longrightarrow> Schema gp = Some sch \<Longrightarrow> Owner gp = None \<Longrightarrow>
   deleteQuery gp ql = Panic"
  by (simp add: deleteQuery_def Let_def)

lemma deleteQuery_ignores_Privileges:
  "deleteQuery (gp\<lparr>Privileges := ps\<rparr>) ql = deleteQuery gp ql"
  by (simp add: deleteQuery_def split: option.splits)

text \<open>
  Delete reaches \<^verbatim>\<open>deleteQuery\<close> only after the probe has reported that the database
  exists; a validation error of the builder is then returned wrapped, after the probe as
  the only call.
\<close>

lemma Delete_validation_error:
  assumes "Database (ForProvider cr) = Some database"
    and "fst (DataBaseExits c ctx database False) = (None, True)"
    and "deleteQuery (ForProvider cr) [] = Return (ql, Some err)"
  shows "outcome (Delete c ctx (DefaultPrivilegeObj cr)) =
           Return (Some (Wrapped err errRevokeDefaultPermsQuery))"
    and "calls (Delete c ctx (DefaultPrivilegeObj cr)) = snd (DataBaseExits c ctx database False)"
proof -
  obtain log1 where p: "DataBaseExits c ctx database False = ((None, True), log1)"
    using assms(2) by (cases "DataBaseExits c ctx database False") simp
  show "outcome (Delete c ctx (DefaultPrivilegeObj cr)) =
          Return (Some (Wrapped err errRevokeDefaultPermsQuery))"
    unfolding Delete_def using assms(1,3) p by (simp add: Let_def)
  show "calls (Delete c ctx (DefaultPrivilegeObj cr)) = snd (DataBaseExits c ctx database False)"
    unfolding Delete_def using assms(1,3) p by (simp add: Let_def)
qed

lemma mock_ScanBool:
  "ScanBool (dbDatabase (mock_external found)) ctx q dest = (None, found)"
  by (simp add: mock_external_def mockDB_def)

lemma mock_ExecTx: "ExecTx (dbDatabase (mock_external found)) ctx ql = None"
  by (simp add: mock_external_def mockDB_def)

lemma DataBaseExits_mock:
  "DataBaseExits (mock_external found) ctx name dest =
     ((None, found),
      [ScanCall Handle_db Background
         \<lparr>String = ''SELECT EXISTS (SELECT datname FROM pg_catalog.pg_database WHERE datname = $1);''
                   @ [CHR 0x0A],
          Parameters = [PString name]\<rparr>])"
  by (simp add: DataBaseExits_def mock_external_def mockDB_def)

text \<open>
  C2: an object without role, owner, schema or privileges makes Create fail with the named
  validation error, and an object without role, schema or owner makes Delete fail likewise.
  The code at the scenario object without its owner: \<^verbatim>\<open>createQueries\<close> returns the
  owner-required error and no statement, but \<^verbatim>\<open>deleteQuery\<close> dereferences the nil owner,
  so Delete (the database being reported as existing) panics instead of returning an error.
\<close>

theorem C2_delete_owner_absent_panics:
  "createQueries (scenario_params\<lparr>Owner := None\<rparr>) [] = ([], Some (New errNoOwner))
   \<and> deleteQuery (scenario_params\<lparr>Owner := None\<rparr>) [] = Panic
   \<and> outcome (Delete (mock_external True) (CallerCtx 1)
                (DefaultPrivilegeObj
                   (scenario_object\<lparr>ForProvider := scenario_params\<lparr>Owner := None\<rparr>\<rparr>)))
       = Panic"
proof -
  note p = DataBaseExits_mock [of True "CallerCtx 1" "''d''" False]
  have d: "deleteQuery (scenario_params\<lparr>Owner := None\<rparr>) [] = Panic"
    by (simp add: deleteQuery_def scenario_params_def Let_def)
  have "outcome (Delete (mock_external True) (CallerCtx 1)
                (DefaultPrivilegeObj
                   (scenario_object\<lparr>ForProvider := scenario_params\<lparr>Owner := None\<rparr>\<rparr>)))
       = Panic"
    unfolding Delete_def using p d
    by (simp add: Let_def scenario_params_def)
  moreover have
    "createQueries (scenario_params\<lparr>Owner := None\<rparr>) [] = ([], Some (New errNoOwner))"
    by (simp add: createQueries_def scenario_params_def)
  ultimately show ?thesis using d by simp
qed

section \<open>Wrong kind\<close>

text \<open>
  C5 (as stated): each of the four verbs fails with the wrong-kind error on an input of
  another kind. Update does not: it returns a nil error for such an input.
\<close>

theorem C5_update_no_kind_check_counterexample:
  "outcome (Update (mock_external False) (CallerCtx 1) OtherManaged)
     \<noteq> Return (ExternalUpdate_zero, Some (New errNot))"
  by (simp add: Update_def)

text \<open>
  C5 (amended): on an input that is not a \<^verbatim>\<open>*DefaultPrivilege\<close>, Observe, Create and
  Delete return the wrong-kind error at once, with no call on a handle and the input
  untouched; Update makes no kind check and returns an empty result and a nil error.
\<close>

theorem C5_wrong_kind:
  "Observe c ctx OtherManaged =
     \<lparr>outcome = Return (ExternalObservation_zero, Some (New errNot)),
      object = OtherManaged, calls = []\<rparr>
   \<and> Create c ctx OtherManaged =
     \<lparr>outcome = Return (ExternalCreation_zero, Some (New errNot)),
      object = OtherManaged, calls = []\<rparr>
   \<and> Delete c ctx OtherManaged =
     \<lparr>outcome = Return (Some (New errNot)), object = OtherManaged, calls = []\<rparr>
   \<and> Update c ctx OtherManaged =
     \<lparr>outcome = Return (ExternalUpdate_zero, None), object = OtherManaged, calls = []\<rparr>"
  by (simp add: Observe_def Create_def Delete_def Update_def)

section \<open>Observe and the schema\<close>

text \<open>The text of the grant-existence query names the namespace \<^verbatim>\<open>'public'\<close>.\<close>

lemma selectQuery_public:
  "\<exists>before after.
     String (fst (selectQuery q ownerID roleID)) =
       before @ ''WHERE grantee_oid = $1 AND nspname = 'public' AND grantor_oid = $2'' @ after"
proof -
  have "selectQuery_String =
     ([CHR 0x0A]
      @ [CHR 0x09] @ ''SELECT EXISTS ('' @ [CHR 0x0A]
      @ [CHR 0x09] @ ''SELECT 1 FROM ('' @ [CHR 0x0A]
      @ [CHR 0x09, CHR 0x09]
        @ ''SELECT defaclnamespace, (aclexplode(defaclacl)).* FROM pg_default_acl'' @ [CHR 0x0A]
      @ '' '' @ [CHR 0x09, CHR 0x09] @ ''WHERE defaclobjtype = '' @ [CHR 0x27] @ ''r''
        @ [CHR 0x27, CHR 0x0A]
      @ [CHR 0x09] @ '') AS t (namespace, grantor_oid, grantee_oid, prtype, grantable)''
        @ [CHR 0x0A]
      @ [CHR 0x09] @ ''JOIN pg_namespace ON pg_namespace.oid = namespace'' @ [CHR 0x0A]
      @ [CHR 0x09])
     @ ''WHERE grantee_oid = $1 AND nspname = 'public' AND grantor_oid = $2''
     @ ([CHR 0x0A] @ ''   '' @ [CHR 0x09] @ '');'' @ [CHR 0x0A] @ [CHR 0x09])"
    unfolding selectQuery_String_def by (simp only: append_assoc)
  moreover have "String (fst (selectQuery q ownerID roleID)) = selectQuery_String"
    by (simp add: selectQuery_def)
  ultimately show ?thesis by metis
qed

text \<open>
  C6: Observe does not depend on the schema of the object. For the same handles and
  context, the object with its schema replaced by any \<open>s\<close> (present or absent) gives the
  same results, the same calls and the same conditions afterwards; and the
  grant-existence query is the fixed text with the two identities as its only parameters.
\<close>

theorem C6_observe_ignores_schema:
  "outcome (Observe c ctx
      (DefaultPrivilegeObj (cr\<lparr>ForProvider := (ForProvider cr)\<lparr>Schema := s\<rparr>\<rparr>)))
     = outcome (Observe c ctx (DefaultPrivilegeObj cr))
   \<and> calls (Observe c ctx
      (DefaultPrivilegeObj (cr\<lparr>ForProvider := (ForProvider cr)\<lparr>Schema := s\<rparr>\<rparr>)))
     = calls (Observe c ctx (DefaultPrivilegeObj cr))
   \<and> Managed_Conditions (object (Observe c ctx
      (DefaultPrivilegeObj (cr\<lparr>ForProvider := (ForProvider cr)\<lparr>Schema := s\<rparr>\<rparr>))))
     = Managed_Conditions (object (Observe c ctx (DefaultPrivilegeObj cr)))
   \<and> fst (selectQuery q ownerID roleID) =
       q\<lparr>String := selectQuery_String, Parameters := [PInt roleID, PInt ownerID]\<rparr>"
  by (simp add: Observe_def Let_def Managed_Conditions_def SetConditions_def selectQuery_def
        split: option.splits prod.splits)

section \<open>Observe without role or owner\<close>

lemma Observe_Role_absent:
  "Role (ForProvider cr) = None \<Longrightarrow>
   Observe c ctx (DefaultPrivilegeObj cr) =
     \<lparr>outcome = Return (ExternalObservation_zero, Some (New errNoRole)),
      object = DefaultPrivilegeObj cr, calls = []\<rparr>"
  by (simp add: Observe_def)

text \<open>
  With the role set and resolved and the owner absent, Observe panics after the role
  lookup, for every handle.
\<close>

lemma Observe_Owner_absent:
  assumes "Role (ForProvider cr) = Some role" and "Owner (ForProvider cr) = None"
    and "fst (GetRoleOID c role) = (roleId, None)"
  shows "outcome (Observe c ctx (DefaultPrivilegeObj cr)) = Panic"
    and "calls (Observe c ctx (DefaultPrivilegeObj cr)) = snd (GetRoleOID c role)"
proof -
  obtain log1 where r: "GetRoleOID c role = ((roleId, None), log1)"
    using assms(3) by (cases "GetRoleOID c role") simp
  show "outcome (Observe c ctx (DefaultPrivilegeObj cr)) = Panic"
    unfolding Observe_def using assms(1,2) r by (simp add: Let_def)
  show "calls (Observe c ctx (DefaultPrivilegeObj cr)) = snd (GetRoleOID c role)"
    unfolding Observe_def using assms(1,2) r by (simp add: Let_def)
qed

text \<open>
  C7: Observe on an object with role set and owner absent returns a validation error
  rather than crashing or issuing a query. The code at the scenario object without its
  owner, the role lookup succeeding: Observe issues the role lookup on \<^verbatim>\<open>db\<close> and then
  panics on the nil owner.
\<close>

theorem C7_observe_owner_absent_panics:
  "Observe (mock_external False) (CallerCtx 1)
     (DefaultPrivilegeObj (scenario_object\<lparr>ForProvider := scenario_params\<lparr>Owner := None\<rparr>\<rparr>)) =
   \<lparr>outcome = Panic,
    object = DefaultPrivilegeObj
               (scenario_object\<lparr>ForProvider := scenario_params\<lparr>Owner := None\<rparr>\<rparr>),
    calls = [ScanCall Handle_db Background
               \<lparr>String = ''SELECT oid FROM pg_roles WHERE rolname = $1;'' @ [CHR 0x0A],
                Parameters = [PString ''r'']\<rparr>]\<rparr>"
  by (simp add: Observe_def GetRoleOID_mock scenario_params_def Let_def)

section \<open>Delete without a database\<close>

lemma Delete_Database_unset:
  "Database (ForProvider cr) = None \<Longrightarrow>
   outcome (Delete c ctx (DefaultPrivilegeObj cr)) = Panic"
  by (simp add: Delete_def Let_def)

text \<open>
  C8: every verb, and Delete's database-existence probe in particular, is well defined
  when the database is unset. The code at the scenario object without its database, for
  every handle, context and status: Delete panics on the nil database before any call,
  whereas the handle selection of \<^verbatim>\<open>Connect\<close> falls back to the default database.
\<close>

theorem C8_delete_database_unset_panics:
  "outcome (Delete c ctx
      (DefaultPrivilegeObj \<lparr>ForProvider = scenario_params\<lparr>Database := None\<rparr>, Conditions = cs\<rparr>))
     = Panic
   \<and> calls (Delete c ctx
      (DefaultPrivilegeObj \<lparr>ForProvider = scenario_params\<lparr>Database := None\<rparr>, Conditions = cs\<rparr>))
     = []
   \<and> crateDb DefaultDatabase (scenario_params\<lparr>Database := None\<rparr>) = DefaultDatabase"
  by (simp add: Delete_def crateDb_def Let_def scenario_params_def)

section \<open>Update\<close>

text \<open>
  C9: Update is an unconditional no-op. For every handle, context and input it returns
  the empty update result and a nil error, makes no call on a handle and leaves the
  input as it was.
\<close>

theorem C9_update_noop:
  "Update c ctx mg = \<lparr>outcome = Return (ExternalUpdate_zero, None), object = mg, calls = []\<rparr>"
  by (simp add: Update_def)

section \<open>The context of the database calls\<close>

text \<open>
  C10: every database call of a verb is issued with the context passed into the verb.
  The code at the scenario object with the caller's context \<open>CallerCtx 1\<close>: the two role
  lookups of Observe and the database probe of Delete are issued with
  \<^verbatim>\<open>context.Background()\<close>; only the grant-existence scan and \<^verbatim>\<open>ExecTx\<close> get the
  caller's context.
\<close>

theorem C10_background_context_calls:
  "map call_ctx (calls (Observe (mock_external True) (CallerCtx 1)
                          (DefaultPrivilegeObj scenario_object)))
     = [Background, Background, CallerCtx 1]
   \<and> map call_ctx (calls (Delete (mock_external True) (CallerCtx 1)
                            (DefaultPrivilegeObj scenario_object)))
     = [Background, CallerCtx 1]"
proof -
  have "map call_ctx (calls (Observe (mock_external True) (CallerCtx 1)
                          (DefaultPrivilegeObj scenario_object)))
     = [Background, Background, CallerCtx 1]"
    by (simp add: Observe_def GetRoleOID_mock scenario_object_def scenario_params_def Let_def
          selectQuery_def mock_ScanBool)
  moreover have "map call_ctx (calls (Delete (mock_external True) (CallerCtx 1)
                            (DefaultPrivilegeObj scenario_object)))
     = [Background, CallerCtx 1]"
    by (simp add: Delete_def DataBaseExits_mock deleteQuery_def scenario_object_def
          scenario_params_def Let_def mock_ExecTx)
  ultimately show ?thesis by simp
qed

end
